theory Spec2Isabelle
  imports Complex_Main "HOL-Library.AList"
begin

section \<open>Python values\<close>

text \<open>
  The pipeline of \<^verbatim>\<open>ex2/nexus_pipeline.py\<close> takes values of any type (\<^verbatim>\<open>Any\<close>) and
  tells them apart with \<^verbatim>\<open>isinstance\<close>. The model covers the built-in values the
  program distinguishes: \<^verbatim>\<open>None\<close>, booleans, integers, floats, text, lists and dicts.

  \<^item> Text is a list of characters. A \<^typ>\<open>char\<close> has 256 values, so the model covers
    text over the code points below 256; the degree sign of the summaries is
    \<open>CHR 0xB0\<close>.
  \<^item> A float is given by the rational number it denotes (23.5 is \<open>47 / 2\<close>); infinities
    and NaN are left out. Float arithmetic is the runtime's and stays a parameter.
  \<^item> A dict is an association list in insertion order. A Python dict holds no two equal
    keys; the program only ever looks up and stores text keys.
\<close>

datatype pyval =
    PNone
  | PBool bool
  | PInt int
  | PFloat rat
  | PStr string
  | PList "pyval list"
  | PDict "(pyval \<times> pyval) list"

text \<open>The exceptions a stage can raise, as values.\<close>

datatype error =
    ValueError
  | KeyError
  | TypeError
  | AttributeError
  | IndexError
  | ZeroDivisionError
  | OverflowError

text \<open>
  What the program takes from the Python runtime and does not define itself:
  \<^item> \<open>fmt v\<close> is the text that an f-string puts for \<^verbatim>\<open>{v}\<close> when \<open>v\<close> is not text
    (text is put as it is);
  \<^item> \<open>sum_of vs\<close> is \<^verbatim>\<open>sum(vs)\<close> for a non-empty list, \<open>None\<close> when the elements cannot be
    added;
  \<^item> \<open>quot a b\<close> is the float \<^verbatim>\<open>a / b\<close> for numbers \<open>a\<close> and \<open>b\<close> with \<open>b\<close> not zero,
    \<open>None\<close> when the quotient is outside the float range.
\<close>

record runtime =
  fmt :: "pyval \<Rightarrow> string"
  sum_of :: "pyval list \<Rightarrow> pyval option"
  quot :: "pyval \<Rightarrow> pyval \<Rightarrow> pyval option"

definition py_format :: "runtime \<Rightarrow> pyval \<Rightarrow> string" where
  "py_format rt v = (case v of PStr s \<Rightarrow> s | _ \<Rightarrow> fmt rt v)"

fun is_num :: "pyval \<Rightarrow> bool" where
  "is_num (PBool b) = True"
| "is_num (PInt i) = True"
| "is_num (PFloat q) = True"
| "is_num v = False"

fun is_zero :: "pyval \<Rightarrow> bool" where
  "is_zero (PBool b) = (\<not> b)"
| "is_zero (PInt i) = (i = 0)"
| "is_zero (PFloat q) = (q = 0)"
| "is_zero v = False"

definition py_sum :: "runtime \<Rightarrow> pyval list \<Rightarrow> error + pyval" where
  "py_sum rt vs = (case sum_of rt vs of None \<Rightarrow> Inl TypeError | Some v \<Rightarrow> Inr v)"

text \<open>\<^verbatim>\<open>a / b\<close>: a type fault on operands that are not numbers, then the zero check.\<close>

definition py_truediv :: "runtime \<Rightarrow> pyval \<Rightarrow> pyval \<Rightarrow> error + pyval" where
  "py_truediv rt a b =
     (if is_num a \<and> is_num b then
        (if is_zero b then Inl ZeroDivisionError
         else (case quot rt a b of None \<Rightarrow> Inl OverflowError | Some q \<Rightarrow> Inr q))
      else Inl TypeError)"

text \<open>\<^verbatim>\<open>isinstance\<close> tests.\<close>

fun is_dict :: "pyval \<Rightarrow> bool" where
  "is_dict (PDict kvs) = True"
| "is_dict v = False"

fun is_list :: "pyval \<Rightarrow> bool" where
  "is_list (PList xs) = True"
| "is_list v = False"

fun is_str :: "pyval \<Rightarrow> bool" where
  "is_str (PStr s) = True"
| "is_str v = False"

text \<open>\<^verbatim>\<open>d["k"]\<close> with a text key: only a dict can be read that way.\<close>

fun getitem_str :: "pyval \<Rightarrow> string \<Rightarrow> error + pyval" where
  "getitem_str (PDict kvs) k =
     (case map_of kvs (PStr k) of None \<Rightarrow> Inl KeyError | Some v \<Rightarrow> Inr v)"
| "getitem_str v k = Inl TypeError"

text \<open>\<^verbatim>\<open>p[0]\<close>.\<close>

fun getitem0 :: "pyval \<Rightarrow> error + pyval" where
  "getitem0 (PList []) = Inl IndexError"
| "getitem0 (PList (x # xs)) = Inr x"
| "getitem0 (PStr []) = Inl IndexError"
| "getitem0 (PStr (c # cs)) = Inr (PStr [c])"
| "getitem0 (PDict kvs) =
     (case map_of kvs (PInt 0) of None \<Rightarrow> Inl KeyError | Some v \<Rightarrow> Inr v)"
| "getitem0 v = Inl TypeError"

text \<open>\<^verbatim>\<open>len(p)\<close>.\<close>

fun py_len :: "pyval \<Rightarrow> error + int" where
  "py_len (PStr s) = Inr (int (length s))"
| "py_len (PList xs) = Inr (int (length xs))"
| "py_len (PDict kvs) = Inr (int (length kvs))"
| "py_len v = Inl TypeError"

text \<open>\<^verbatim>\<open>for i in p\<close>: the elements of a list, the keys of a dict, the characters of a text.\<close>

fun py_iter :: "pyval \<Rightarrow> error + pyval list" where
  "py_iter (PList xs) = Inr xs"
| "py_iter (PDict kvs) = Inr (map fst kvs)"
| "py_iter (PStr s) = Inr (map (\<lambda>c. PStr [c]) s)"
| "py_iter v = Inl TypeError"

text \<open>\<^verbatim>\<open>s.split(c)\<close> for a separator of one character: never an empty list.\<close>

fun split_on :: "char \<Rightarrow> string \<Rightarrow> string list" where
  "split_on c [] = [[]]"
| "split_on c (x # xs) =
     (if x = c then [] # split_on c xs
      else (case split_on c xs of [] \<Rightarrow> [[x]] | r # rs \<Rightarrow> (x # r) # rs))"

text \<open>The field lookup of the envelope, for stating properties: \<open>None\<close> when absent.\<close>

fun field :: "pyval \<Rightarrow> string \<Rightarrow> pyval option" where
  "field (PDict kvs) k = map_of kvs (PStr k)"
| "field v k = None"

section \<open>The stages\<close>

text \<open>
  The envelope is the dict built by \<^verbatim>\<open>InputStage.process\<close>, with the keys \<^verbatim>\<open>raw\<close>,
  \<^verbatim>\<open>payload\<close>, \<^verbatim>\<open>type\<close> and, after the transformation, \<^verbatim>\<open>size\<close>. The tags of the source
  are \<^verbatim>\<open>json\<close> (structured), \<^verbatim>\<open>csv\<close> (delimited), \<^verbatim>\<open>stream\<close> and \<^verbatim>\<open>invalid\<close>. The traces
  the stages print are not modelled.
\<close>

definition InputStage_process :: "pyval \<Rightarrow> pyval" where
  "InputStage_process data =
     (if is_dict data then
        PDict [(PStr ''raw'', data), (PStr ''payload'', data), (PStr ''type'', PStr ''json'')]
      else if is_list data then
        PDict [(PStr ''raw'', data), (PStr ''payload'', data), (PStr ''type'', PStr ''stream'')]
      else (case data of
          PStr s \<Rightarrow>
            (if s \<noteq> [] \<and> hd s = CHR ''{'' \<and> last s = CHR ''}'' then
               PDict [(PStr ''raw'', data), (PStr ''type'', PStr ''json''), (PStr ''payload'', data)]
             else if CHR '','' \<in> set s then
               PDict [(PStr ''raw'', data), (PStr ''type'', PStr ''csv''), (PStr ''payload'', data)]
             else PDict [(PStr ''raw'', data), (PStr ''type'', PStr ''invalid'')])
        | _ \<Rightarrow> PDict [(PStr ''raw'', data), (PStr ''type'', PStr ''invalid'')]))"

text \<open>
  \<^verbatim>\<open>TransformStage.process\<close> assigns to keys of the dict it is given and returns that
  same dict. The model returns a pair: the dict as the call leaves it (also when the
  call raises) and the outcome.
\<close>

fun count_colons :: "string \<Rightarrow> int \<Rightarrow> int" where
  "count_colons [] n = n"
| "count_colons (c # cs) n = count_colons cs (if c = CHR '':'' then n + 1 else n)"

definition transform_csv :: "(pyval \<times> pyval) list \<Rightarrow> pyval \<times> (error + pyval)" where
  "transform_csv kvs =
     (case map_of kvs (PStr ''payload'') of
        None \<Rightarrow> (PDict kvs, Inl KeyError)
      | Some (PStr s) \<Rightarrow>
          (let lines = split_on CHR 0x0A s;
               kvs1 = AList.update (PStr ''payload'') (PList (map PStr lines)) kvs;
               rows = map (\<lambda>row. PList (map PStr (split_on CHR '','' row))) lines;
               kvs2 = AList.update (PStr ''payload'') (PList rows) kvs1;
               kvs3 = AList.update (PStr ''size'') (PInt (int (length rows))) kvs2
           in (PDict kvs3, Inr (PDict kvs3)))
      | Some _ \<Rightarrow> (PDict kvs, Inl AttributeError))"

definition transform_json :: "(pyval \<times> pyval) list \<Rightarrow> pyval \<times> (error + pyval)" where
  "transform_json kvs =
     (let kvs0 = AList.update (PStr ''size'') (PInt 0) kvs in
      (case map_of kvs0 (PStr ''payload'') of
         None \<Rightarrow> (PDict kvs0, Inl KeyError)
       | Some (PStr s) \<Rightarrow>
           (let kvs1 = AList.update (PStr ''size'') (PInt (count_colons s 0)) kvs0
            in (PDict kvs1, Inr (PDict kvs1)))
       | Some p \<Rightarrow>
           (case py_len p of
              Inl e \<Rightarrow> (PDict kvs0, Inl e)
            | Inr n \<Rightarrow>
                (let kvs1 = AList.update (PStr ''size'') (PInt n) kvs0
                 in (PDict kvs1, Inr (PDict kvs1))))))"

definition transform_stream :: "(pyval \<times> pyval) list \<Rightarrow> pyval \<times> (error + pyval)" where
  "transform_stream kvs =
     (case map_of kvs (PStr ''payload'') of
        None \<Rightarrow> (PDict kvs, Inl KeyError)
      | Some p \<Rightarrow>
          (case py_len p of
             Inl e \<Rightarrow> (PDict kvs, Inl e)
           | Inr n \<Rightarrow>
               (let kvs1 = AList.update (PStr ''size'') (PInt n) kvs
                in (PDict kvs1, Inr (PDict kvs1)))))"

fun TransformStage_process :: "pyval \<Rightarrow> pyval \<times> (error + pyval)" where
  "TransformStage_process (PDict kvs) =
     (case map_of kvs (PStr ''type'') of
        None \<Rightarrow> (PDict kvs, Inl KeyError)
      | Some t \<Rightarrow>
          (if t = PStr ''invalid'' then (PDict kvs, Inl ValueError)
           else if t = PStr ''csv'' then transform_csv kvs
           else if t = PStr ''json'' then transform_json kvs
           else if t = PStr ''stream'' then transform_stream kvs
           else (PDict kvs, Inr (PDict kvs))))"
| "TransformStage_process data = (data, Inl TypeError)"

text \<open>\<^verbatim>\<open>[i["value"] for i in items]\<close>: the first fault ends the comprehension.\<close>

fun values_of :: "pyval list \<Rightarrow> error + pyval list" where
  "values_of [] = Inr []"
| "values_of (i # rest) =
     (case getitem_str i ''value'' of
        Inl e \<Rightarrow> Inl e
      | Inr v \<Rightarrow> (case values_of rest of Inl e \<Rightarrow> Inl e | Inr vs \<Rightarrow> Inr (v # vs)))"

definition output_json :: "runtime \<Rightarrow> (pyval \<times> pyval) list \<Rightarrow> error + pyval" where
  "output_json rt kvs =
     (case map_of kvs (PStr ''payload'') of
        None \<Rightarrow> Inl KeyError
      | Some (PDict m) \<Rightarrow>
          (case map_of m (PStr ''value'') of
             None \<Rightarrow> Inl KeyError
           | Some v \<Rightarrow>
               (case map_of m (PStr ''unit'') of
                  None \<Rightarrow> Inl KeyError
                | Some u \<Rightarrow>
                    Inr (PStr (''Processed temperature reading: '' @ py_format rt v
                      @ [CHR 0xB0] @ py_format rt u @ ''  (Normal range)''))))
      | Some _ \<Rightarrow>
          (case map_of kvs (PStr ''size'') of
             None \<Rightarrow> Inl KeyError
           | Some sz \<Rightarrow>
               Inr (PStr (''Processed temperature reading: '' @ py_format rt sz
                 @ '' reading processed''))))"

definition output_csv :: "runtime \<Rightarrow> (pyval \<times> pyval) list \<Rightarrow> error + pyval" where
  "output_csv rt kvs =
     (case map_of kvs (PStr ''size'') of
        None \<Rightarrow> Inl KeyError
      | Some sz \<Rightarrow>
          Inr (PStr (''User activity logged: '' @ py_format rt sz @ '' actions processed'')))"

definition stream_average :: "runtime \<Rightarrow> pyval \<Rightarrow> pyval list \<Rightarrow> pyval \<Rightarrow> error + pyval" where
  "stream_average rt p temps sz =
     (case py_sum rt temps of
        Inl e \<Rightarrow> Inl e
      | Inr s \<Rightarrow>
          (case py_truediv rt s sz of
             Inl e \<Rightarrow> Inl e
           | Inr avg \<Rightarrow>
               (case getitem0 p of
                  Inl e \<Rightarrow> Inl e
                | Inr r0 \<Rightarrow>
                    (case getitem_str r0 ''unit'' of
                       Inl e \<Rightarrow> Inl e
                     | Inr u \<Rightarrow>
                         Inr (PStr (''Stream summary: '' @ py_format rt sz @ '' readings, avg: ''
                           @ py_format rt avg @ [CHR 0xB0] @ py_format rt u))))))"

definition output_stream :: "runtime \<Rightarrow> (pyval \<times> pyval) list \<Rightarrow> error + pyval" where
  "output_stream rt kvs =
     (case map_of kvs (PStr ''payload'') of
        None \<Rightarrow> Inl KeyError
      | Some p \<Rightarrow>
          (case py_iter p of
             Inl e \<Rightarrow> Inl e
           | Inr items \<Rightarrow>
               (case values_of items of
                  Inl e \<Rightarrow> Inl e
                | Inr temps \<Rightarrow>
                    (case map_of kvs (PStr ''size'') of
                       None \<Rightarrow> Inl KeyError
                     | Some sz \<Rightarrow>
                         (if temps = [] then
                            Inr (PStr (''Stream summary: '' @ py_format rt sz @ '' readings''))
                          else stream_average rt p temps sz)))))"

fun OutputStage_process :: "runtime \<Rightarrow> pyval \<Rightarrow> error + pyval" where
  "OutputStage_process rt (PDict kvs) =
     (case map_of kvs (PStr ''type'') of
        None \<Rightarrow> Inl KeyError
      | Some t \<Rightarrow>
          (if t = PStr ''invalid'' then Inr (PStr ''Invalid type'')
           else if t = PStr ''json'' then output_json rt kvs
           else if t = PStr ''csv'' then output_csv rt kvs
           else if t = PStr ''stream'' then output_stream rt kvs
           else Inr PNone))"
| "OutputStage_process rt data = Inl TypeError"

section \<open>Pipelines and the manager\<close>

datatype stage = InputStage | TransformStage | OutputStage

text \<open>
  One call of \<^verbatim>\<open>s.process(data)\<close>: the object \<open>data\<close> as the call leaves it, and the
  outcome. Only the transformation assigns to its argument; the input stage builds a
  new dict and the output stage only reads.
\<close>

fun stage_run :: "runtime \<Rightarrow> stage \<Rightarrow> pyval \<Rightarrow> pyval \<times> (error + pyval)" where
  "stage_run rt InputStage data = (data, Inr (InputStage_process data))"
| "stage_run rt TransformStage data = TransformStage_process data"
| "stage_run rt OutputStage data = (data, OutputStage_process rt data)"

definition stage_process :: "runtime \<Rightarrow> stage \<Rightarrow> pyval \<Rightarrow> error + pyval" where
  "stage_process rt s data = snd (stage_run rt s data)"

text \<open>
  \<^verbatim>\<open>for s in self.stages: data = s.process(data)\<close>: an exception of a stage is not
  caught and ends the loop.
\<close>

fun run_stages :: "runtime \<Rightarrow> stage list \<Rightarrow> pyval \<Rightarrow> error + pyval" where
  "run_stages rt [] data = Inr data"
| "run_stages rt (s # ss) data =
     (case stage_process rt s data of
        Inl e \<Rightarrow> Inl e
      | Inr data' \<Rightarrow> run_stages rt ss data')"

definition JSONAdapter_process :: "runtime \<Rightarrow> stage list \<Rightarrow> pyval \<Rightarrow> error + pyval" where
  "JSONAdapter_process rt stages data =
     (if \<not> (is_str data \<or> is_dict data) then
        Inr (PStr (py_format rt data @ '' is not a JSON-like format''))
      else run_stages rt stages data)"

definition CSVAdapter_process :: "runtime \<Rightarrow> stage list \<Rightarrow> pyval \<Rightarrow> error + pyval" where
  "CSVAdapter_process rt stages data =
     (case data of
        PStr s \<Rightarrow>
          (if CHR '','' \<notin> set s then
             Inr (PStr (py_format rt data @ '' is not a CSV-like format''))
           else run_stages rt stages data)
      | _ \<Rightarrow> Inr (PStr (py_format rt data @ '' is not a CSV-like format'')))"

definition StreamAdapter_process :: "runtime \<Rightarrow> stage list \<Rightarrow> pyval \<Rightarrow> error + pyval" where
  "StreamAdapter_process rt stages data =
     (case data of
        PList xs \<Rightarrow>
          (if \<not> list_all is_dict xs then
             Inr (PStr (py_format rt data @ '' is not a stream-like format''))
           else run_stages rt stages data)
      | _ \<Rightarrow> Inr (PStr (py_format rt data @ '' is not a stream-like format'')))"

datatype adapter = JSONAdapter | CSVAdapter | StreamAdapter

record pipeline =
  adapter :: adapter
  pipeline_id :: int
  stages :: "stage list"

definition new_pipeline :: "adapter \<Rightarrow> int \<Rightarrow> pipeline" where
  "new_pipeline a n = \<lparr>adapter = a, pipeline_id = n, stages = []\<rparr>"

definition add_stage :: "pipeline \<Rightarrow> stage \<Rightarrow> pipeline" where
  "add_stage p s = p\<lparr>stages := stages p @ [s]\<rparr>"

text \<open>The format guard of each adapter, as its \<^verbatim>\<open>process\<close> tests it.\<close>

fun guard :: "adapter \<Rightarrow> pyval \<Rightarrow> bool" where
  "guard JSONAdapter data = (is_str data \<or> is_dict data)"
| "guard CSVAdapter data = (case data of PStr s \<Rightarrow> CHR '','' \<in> set s | _ \<Rightarrow> False)"
| "guard StreamAdapter data = (case data of PList xs \<Rightarrow> list_all is_dict xs | _ \<Rightarrow> False)"

fun pipeline_process :: "runtime \<Rightarrow> pipeline \<Rightarrow> pyval \<Rightarrow> error + pyval" where
  "pipeline_process rt p data =
     (case adapter p of
        JSONAdapter \<Rightarrow> JSONAdapter_process rt (stages p) data
      | CSVAdapter \<Rightarrow> CSVAdapter_process rt (stages p) data
      | StreamAdapter \<Rightarrow> StreamAdapter_process rt (stages p) data)"

text \<open>\<^verbatim>\<open>NexusManager.process_data\<close>: the output of a pipeline is the input of the next.\<close>

fun process_data :: "runtime \<Rightarrow> pipeline list \<Rightarrow> pyval \<Rightarrow> error + pyval" where
  "process_data rt [] data = Inr data"
| "process_data rt (p # ps) data =
     (case pipeline_process rt p data of
        Inl e \<Rightarrow> Inl e
      | Inr data' \<Rightarrow> process_data rt ps data')"

text \<open>The chaining demo of the source: pipelines A, B and C, and the temperature reading.\<close>

definition pipeline_A :: pipeline where
  "pipeline_A = add_stage (add_stage (new_pipeline JSONAdapter 3) InputStage) TransformStage"

definition pipeline_B :: pipeline where
  "pipeline_B = add_stage (new_pipeline JSONAdapter 4) TransformStage"

definition pipeline_C :: pipeline where
  "pipeline_C = add_stage (new_pipeline JSONAdapter 5) OutputStage"

definition temperature_reading :: pyval where
  "temperature_reading =
     PDict [(PStr ''sensor'', PStr ''temp''), (PStr ''value'', PFloat (47 / 2)),
            (PStr ''unit'', PStr ''C'')]"

text \<open>
  An instance of the runtime, for evaluating the model at concrete inputs: integers are
  added exactly, the quotient of two integers is the exact rational (the float Python
  returns whenever that rational is a float), and every value that is not text is
  formatted as a question mark. The theorems below hold for every runtime.
\<close>

fun sum_ints :: "pyval list \<Rightarrow> int option" where
  "sum_ints [] = Some 0"
| "sum_ints (PInt i # vs) = (case sum_ints vs of None \<Rightarrow> None | Some n \<Rightarrow> Some (i + n))"
| "sum_ints (v # vs) = None"

definition sample_runtime :: runtime where
  "sample_runtime =
     \<lparr>fmt = (\<lambda>v. ''?''),
      sum_of = (\<lambda>vs. map_option PInt (sum_ints vs)),
      quot = (\<lambda>a b. case (a, b) of
                (PInt i, PInt j) \<Rightarrow> Some (PFloat (of_int i / of_int j))
              | _ \<Rightarrow> None)\<rparr>"

text \<open>The text a pipeline returns for an input its guard refuses, after the input itself.\<close>

definition reject_suffix :: "adapter \<Rightarrow> string" where
  "reject_suffix a =
     (case a of
        JSONAdapter \<Rightarrow> '' is not a JSON-like format''
      | CSVAdapter \<Rightarrow> '' is not a CSV-like format''
      | StreamAdapter \<Rightarrow> '' is not a stream-like format'')"

section \<open>Basic facts\<close>

lemma pipeline_process_guard:
  "pipeline_process rt p data =
     (if guard (adapter p) data then run_stages rt (stages p) data
      else Inr (PStr (py_format rt data @ reject_suffix (adapter p))))"
  by (cases "adapter p")
     (auto simp: JSONAdapter_process_def CSVAdapter_process_def StreamAdapter_process_def
        reject_suffix_def split: pyval.splits)

lemma InputStage_text:
  "InputStage_process (PStr s) =
     (if s \<noteq> [] \<and> hd s = CHR ''{'' \<and> last s = CHR ''}'' then
        PDict [(PStr ''raw'', PStr s), (PStr ''type'', PStr ''json''), (PStr ''payload'', PStr s)]
      else if CHR '','' \<in> set s then
        PDict [(PStr ''raw'', PStr s), (PStr ''type'', PStr ''csv''), (PStr ''payload'', PStr s)]
      else PDict [(PStr ''raw'', PStr s), (PStr ''type'', PStr ''invalid'')])"
  by (simp add: InputStage_process_def)

lemma split_on_length: "length (split_on c s) = count_list s c + 1"
  by (induction s) (auto split: list.splits)

lemma transform_csv_text:
  assumes "map_of kvs (PStr ''payload'') = Some (PStr s)"
  shows "transform_csv kvs =
     (PDict (AList.update (PStr ''size'') (PInt (int (length (split_on CHR 0x0A s))))
        (AList.update (PStr ''payload'')
           (PList (map (\<lambda>row. PList (map PStr (split_on CHR '','' row))) (split_on CHR 0x0A s))) kvs)),
      Inr (PDict (AList.update (PStr ''size'') (PInt (int (length (split_on CHR 0x0A s))))
        (AList.update (PStr ''payload'')
           (PList (map (\<lambda>row. PList (map PStr (split_on CHR '','' row))) (split_on CHR 0x0A s))) kvs))))"
  using assms by (simp add: transform_csv_def Let_def)

lemma transform_csv_keeps:
  "k \<noteq> ''payload'' \<Longrightarrow> k \<noteq> ''size'' \<Longrightarrow>
     field (fst (transform_csv kvs)) k = field (PDict kvs) k"
  by (auto simp: transform_csv_def Let_def update_conv' split: option.splits pyval.splits)

lemma transform_json_keeps:
  "k \<noteq> ''payload'' \<Longrightarrow> k \<noteq> ''size'' \<Longrightarrow>
     field (fst (transform_json kvs)) k = field (PDict kvs) k"
  by (auto simp: transform_json_def Let_def update_conv'
        split: option.splits pyval.splits sum.splits)

lemma transform_stream_keeps:
  "k \<noteq> ''payload'' \<Longrightarrow> k \<noteq> ''size'' \<Longrightarrow>
     field (fst (transform_stream kvs)) k = field (PDict kvs) k"
  by (auto simp: transform_stream_def Let_def update_conv'
        split: option.splits pyval.splits sum.splits)

text \<open>The transformation assigns to \<^verbatim>\<open>payload\<close> and \<^verbatim>\<open>size\<close> only.\<close>

lemma TransformStage_keeps:
  "k \<noteq> ''payload'' \<Longrightarrow> k \<noteq> ''size'' \<Longrightarrow>
     field (fst (TransformStage_process e)) k = field e k"
  by (cases e)
     (auto simp: transform_csv_keeps transform_json_keeps transform_stream_keeps
        split: option.splits)

lemma transform_csv_returns:
  "snd (transform_csv kvs) = Inr e' \<Longrightarrow> e' = fst (transform_csv kvs)"
  by (auto simp: transform_csv_def Let_def split: option.splits pyval.splits)

lemma transform_json_returns:
  "snd (transform_json kvs) = Inr e' \<Longrightarrow> e' = fst (transform_json kvs)"
  by (auto simp: transform_json_def Let_def split: option.splits pyval.splits sum.splits)

lemma transform_stream_returns:
  "snd (transform_stream kvs) = Inr e' \<Longrightarrow> e' = fst (transform_stream kvs)"
  by (auto simp: transform_stream_def Let_def split: option.splits pyval.splits sum.splits)

text \<open>What the transformation returns is the dict it was given, as it left it.\<close>

lemma TransformStage_returns:
  "snd (TransformStage_process e) = Inr e' \<Longrightarrow> e' = fst (TransformStage_process e)"
  by (cases e)
     (auto simp: transform_csv_returns transform_json_returns transform_stream_returns
        split: option.splits if_splits)

lemma transform_csv_dict: "is_dict (fst (transform_csv kvs))"
  by (auto simp: transform_csv_def Let_def split: option.splits pyval.splits)

lemma transform_json_dict: "is_dict (fst (transform_json kvs))"
  by (auto simp: transform_json_def Let_def split: option.splits pyval.splits sum.splits)

lemma transform_stream_dict: "is_dict (fst (transform_stream kvs))"
  by (auto simp: transform_stream_def Let_def split: option.splits pyval.splits sum.splits)

lemma TransformStage_dict: "is_dict (fst (TransformStage_process (PDict kvs)))"
  by (auto simp: transform_csv_dict transform_json_dict transform_stream_dict
        split: option.splits)

lemma transform_stream_result:
  assumes "transform_stream kvs = (e', Inr e)"
  shows "\<exists>p n. e = PDict (AList.update (PStr ''size'') (PInt n) kvs)
     \<and> map_of kvs (PStr ''payload'') = Some p \<and> py_len p = Inr n"
  using assms
  by (auto simp: transform_stream_def Let_def split: option.splits sum.splits)

lemma values_of_length: "values_of items = Inr temps \<Longrightarrow> length temps = length items"
  by (induction items arbitrary: temps) (auto split: sum.splits)

lemma py_iter_len: "py_iter p = Inr items \<Longrightarrow> py_len p = Inr (int (length items))"
  by (cases p) auto

text \<open>Only the division of the stream summary can raise \<^verbatim>\<open>ZeroDivisionError\<close>.\<close>

lemma getitem_str_no_zero_division: "getitem_str v k \<noteq> Inl ZeroDivisionError"
  by (cases v) (auto split: option.splits)

lemma getitem0_no_zero_division: "getitem0 p \<noteq> Inl ZeroDivisionError"
  by (induction p rule: getitem0.induct) (auto split: option.splits)

lemma values_of_no_zero_division: "values_of items \<noteq> Inl ZeroDivisionError"
  by (induction items) (auto simp: getitem_str_no_zero_division split: sum.splits)

lemma py_iter_no_zero_division: "py_iter p \<noteq> Inl ZeroDivisionError"
  by (cases p) auto

lemma output_json_no_zero_division: "output_json rt kvs \<noteq> Inl ZeroDivisionError"
  by (auto simp: output_json_def split: option.splits pyval.splits)

lemma output_csv_no_zero_division: "output_csv rt kvs \<noteq> Inl ZeroDivisionError"
  by (auto simp: output_csv_def split: option.splits)

lemma stream_average_no_zero_division:
  "\<not> is_zero sz \<Longrightarrow> stream_average rt p temps sz \<noteq> Inl ZeroDivisionError"
  using getitem0_no_zero_division [of p]
  by (auto simp: stream_average_def py_sum_def py_truediv_def getitem_str_no_zero_division
      split: sum.splits option.splits)

text \<open>With \<^verbatim>\<open>size\<close> the length of the payload, the divisor of a non-empty stream is not zero.\<close>

lemma output_stream_no_zero_division:
  assumes "map_of kvs (PStr ''payload'') = Some p"
    and "py_len p = Inr n"
    and "map_of kvs (PStr ''size'') = Some (PInt n)"
  shows "output_stream rt kvs \<noteq> Inl ZeroDivisionError"
proof (cases "py_iter p")
  case (Inl e)
  with assms py_iter_no_zero_division [of p] show ?thesis
    by (simp add: output_stream_def)
next
  case items: (Inr items)
  show ?thesis
  proof (cases "values_of items")
    case (Inl e)
    with assms items values_of_no_zero_division [of items] show ?thesis
      by (simp add: output_stream_def)
  next
    case temps: (Inr temps)
    show ?thesis
    proof (cases "temps = []")
      case True
      with assms items temps show ?thesis by (simp add: output_stream_def)
    next
      case False
      with values_of_length [OF temps] have "items \<noteq> []" by auto
      with py_iter_len [OF items] assms(2) have "n \<noteq> 0" by simp
      then have "\<not> is_zero (PInt n)" by simp
      from stream_average_no_zero_division [OF this] assms items temps False
      show ?thesis by (simp add: output_stream_def)
    qed
  qed
qed

lemma no_zero_division_after_transform:
  assumes "snd (TransformStage_process e0) = Inr e"
  shows "OutputStage_process rt e \<noteq> Inl ZeroDivisionError"
proof (cases e0)
  case (PDict kvs)
  from TransformStage_returns [OF assms] have e: "e = fst (TransformStage_process e0)" .
  have ty: "field e ''type'' = field e0 ''type''"
    unfolding e by (rule TransformStage_keeps) simp_all
  show ?thesis
  proof (cases "map_of kvs (PStr ''type'') = Some (PStr ''stream'')")
    case True
    with assms PDict have "snd (transform_stream kvs) = Inr e" by simp
    moreover from this have "fst (transform_stream kvs) = e"
      using True e PDict by simp
    ultimately have "transform_stream kvs = (e, Inr e)" by (simp add: prod_eq_iff)
    from transform_stream_result [OF this] obtain p n
      where "e = PDict (AList.update (PStr ''size'') (PInt n) kvs)"
        and "map_of kvs (PStr ''payload'') = Some p" and "py_len p = Inr n" by blast
    with True
      output_stream_no_zero_division [of "AList.update (PStr ''size'') (PInt n) kvs" p n rt]
    show ?thesis by (simp add: update_conv')
  next
    case False
    from TransformStage_dict [of kvs] obtain kvs' where e': "e = PDict kvs'"
      unfolding e PDict by (cases "fst (TransformStage_process (PDict kvs))") simp_all
    with ty PDict False have "map_of kvs' (PStr ''type'') \<noteq> Some (PStr ''stream'')" by simp
    then show ?thesis
      unfolding e'
      by (auto simp: output_json_no_zero_division output_csv_no_zero_division
            split: option.splits)
  qed
qed (use assms in simp_all)

text \<open>A division by zero needs a non-empty payload and a \<^verbatim>\<open>size\<close> that is zero.\<close>

lemma stream_average_zero_division:
  "stream_average rt p temps sz = Inl ZeroDivisionError \<Longrightarrow> is_zero sz"
  using stream_average_no_zero_division [of sz rt p temps] by blast

lemma output_stream_zero_division:
  assumes "output_stream rt kvs = Inl ZeroDivisionError"
  shows "\<exists>p sz. map_of kvs (PStr ''payload'') = Some p \<and> py_len p \<noteq> Inr 0
     \<and> map_of kvs (PStr ''size'') = Some sz \<and> is_zero sz"
proof -
  from assms obtain p where p: "map_of kvs (PStr ''payload'') = Some p"
    by (auto simp: output_stream_def split: option.splits)
  from assms p py_iter_no_zero_division [of p] obtain items where items: "py_iter p = Inr items"
    by (cases "py_iter p") (auto simp: output_stream_def)
  from assms p items values_of_no_zero_division [of items] obtain temps
    where temps: "values_of items = Inr temps"
    by (cases "values_of items") (auto simp: output_stream_def)
  from assms p items temps obtain sz where sz: "map_of kvs (PStr ''size'') = Some sz"
    by (auto simp: output_stream_def split: option.splits)
  from assms p items temps sz have ne: "temps \<noteq> []"
    and avg: "stream_average rt p temps sz = Inl ZeroDivisionError"
    by (auto simp: output_stream_def split: if_splits)
  from ne values_of_length [OF temps] have "items \<noteq> []" by auto
  with py_iter_len [OF items] have "py_len p \<noteq> Inr 0" by simp
  with p sz stream_average_zero_division [OF avg] show ?thesis by blast
qed

lemma OutputStage_zero_division:
  assumes "OutputStage_process rt e = Inl ZeroDivisionError"
  shows "field e ''type'' = Some (PStr ''stream'')
     \<and> (\<exists>p sz. field e ''payload'' = Some p \<and> py_len p \<noteq> Inr 0
          \<and> field e ''size'' = Some sz \<and> is_zero sz)"
proof (cases e)
  case (PDict kvs)
  with assms have t: "map_of kvs (PStr ''type'') = Some (PStr ''stream'')"
    by (auto simp: output_json_no_zero_division output_csv_no_zero_division
          split: option.splits if_splits)
  with assms PDict have "output_stream rt kvs = Inl ZeroDivisionError" by simp
  from output_stream_zero_division [OF this] t PDict show ?thesis by simp
qed (use assms in simp_all)

section \<open>Text that is neither brace-delimited nor comma-separated\<close>

text \<open>
  C1. A text without a comma that is not brace-delimited passes the guard of the JSON
  (structured) adapter, is tagged \<^verbatim>\<open>invalid\<close> by the input stage, and makes the
  transformation raise; the pipeline does not catch the exception, whatever stages
  follow. The source raises \<^verbatim>\<open>ValueError\<close>.
\<close>

theorem invalid_text_raises:
  assumes "CHR '','' \<notin> set s"
    and "\<not> (s \<noteq> [] \<and> hd s = CHR ''{'' \<and> last s = CHR ''}'')"
  shows "guard JSONAdapter (PStr s)
     \<and> field (InputStage_process (PStr s)) ''type'' = Some (PStr ''invalid'')
     \<and> stage_process rt TransformStage (InputStage_process (PStr s)) = Inl ValueError
     \<and> JSONAdapter_process rt (InputStage # TransformStage # rest) (PStr s) = Inl ValueError
     \<and> pipeline_process rt \<lparr>adapter = JSONAdapter, pipeline_id = n,
          stages = InputStage # TransformStage # rest\<rparr> (PStr s) = Inl ValueError"
  using assms
  by (simp add: InputStage_text stage_process_def JSONAdapter_process_def)

theorem invalid_text_raises_witness:
  "CHR '','' \<notin> set ''not valid json or csv''
     \<and> \<not> (''not valid json or csv'' \<noteq> [] \<and> hd ''not valid json or csv'' = CHR ''{''
          \<and> last ''not valid json or csv'' = CHR ''}'')
     \<and> guard JSONAdapter (PStr ''not valid json or csv'')
     \<and> field (InputStage_process (PStr ''not valid json or csv'')) ''type''
          = Some (PStr ''invalid'')
     \<and> JSONAdapter_process sample_runtime [InputStage, TransformStage, OutputStage]
          (PStr ''not valid json or csv'') = Inl ValueError"
  using invalid_text_raises [of "''not valid json or csv''" sample_runtime "[OutputStage]" 3]
  by simp

section \<open>Classification\<close>

text \<open>
  C3. The input stage tags its input by the first rule that applies: a dict is \<^verbatim>\<open>json\<close>
  with the dict as payload; a list is \<^verbatim>\<open>stream\<close> with the list as payload; any other
  value that is not text is \<^verbatim>\<open>invalid\<close> with no payload; a non-empty text from \<^verbatim>\<open>{\<close> to
  \<^verbatim>\<open>}\<close> is \<^verbatim>\<open>json\<close> with the text as payload; any other text with a comma is \<^verbatim>\<open>csv\<close> with
  the text as payload; every other text is \<^verbatim>\<open>invalid\<close>. The stage always returns.
\<close>

theorem InputStage_classification:
  "(is_dict d \<longrightarrow>
      field (InputStage_process d) ''type'' = Some (PStr ''json'')
    \<and> field (InputStage_process d) ''payload'' = Some d)
 \<and> (\<not> is_dict d \<and> is_list d \<longrightarrow>
      field (InputStage_process d) ''type'' = Some (PStr ''stream'')
    \<and> field (InputStage_process d) ''payload'' = Some d)
 \<and> (\<not> is_dict d \<and> \<not> is_list d \<and> \<not> is_str d \<longrightarrow>
      field (InputStage_process d) ''type'' = Some (PStr ''invalid'')
    \<and> field (InputStage_process d) ''payload'' = None)
 \<and> (d = PStr s \<and> s \<noteq> [] \<and> hd s = CHR ''{'' \<and> last s = CHR ''}'' \<longrightarrow>
      field (InputStage_process d) ''type'' = Some (PStr ''json'')
    \<and> field (InputStage_process d) ''payload'' = Some d)
 \<and> (d = PStr s \<and> \<not> (s \<noteq> [] \<and> hd s = CHR ''{'' \<and> last s = CHR ''}'')
      \<and> CHR '','' \<in> set s \<longrightarrow>
      field (InputStage_process d) ''type'' = Some (PStr ''csv'')
    \<and> field (InputStage_process d) ''payload'' = Some d)
 \<and> (d = PStr s \<and> \<not> (s \<noteq> [] \<and> hd s = CHR ''{'' \<and> last s = CHR ''}'')
      \<and> CHR '','' \<notin> set s \<longrightarrow>
      field (InputStage_process d) ''type'' = Some (PStr ''invalid'')
    \<and> field (InputStage_process d) ''payload'' = None)
 \<and> field (InputStage_process d) ''raw'' = Some d
 \<and> stage_process rt InputStage d = Inr (InputStage_process d)"
  by (cases d) (simp_all add: InputStage_process_def stage_process_def)

theorem InputStage_classification_witness:
  "is_dict temperature_reading
 \<and> field (InputStage_process temperature_reading) ''type'' = Some (PStr ''json'')
 \<and> field (InputStage_process temperature_reading) ''payload'' = Some temperature_reading
 \<and> is_list (PList [PInt 1])
 \<and> field (InputStage_process (PList [PInt 1])) ''type'' = Some (PStr ''stream'')
 \<and> field (InputStage_process (PList [PInt 1])) ''payload'' = Some (PList [PInt 1])
 \<and> \<not> is_str (PInt 42)
 \<and> field (InputStage_process (PInt 42)) ''type'' = Some (PStr ''invalid'')
 \<and> field (InputStage_process (PInt 42)) ''payload'' = None
 \<and> field (InputStage_process (PStr ''{a,b}'')) ''type'' = Some (PStr ''json'')
 \<and> field (InputStage_process (PStr ''{a,b}'')) ''payload'' = Some (PStr ''{a,b}'')
 \<and> field (InputStage_process (PStr ''user,action,timestamp'')) ''type'' = Some (PStr ''csv'')
 \<and> field (InputStage_process (PStr ''abc'')) ''type'' = Some (PStr ''invalid'')
 \<and> stage_process sample_runtime InputStage PNone = Inr (InputStage_process PNone)"
  using InputStage_classification [where d = temperature_reading and rt = sample_runtime]
    InputStage_classification [where d = "PList [PInt 1]" and rt = sample_runtime]
    InputStage_classification [where d = "PInt 42" and rt = sample_runtime]
    InputStage_classification [where d = "PStr ''{a,b}''" and s = "''{a,b}''"
      and rt = sample_runtime]
    InputStage_classification [where d = "PStr ''user,action,timestamp''"
      and s = "''user,action,timestamp''" and rt = sample_runtime]
    InputStage_classification [where d = "PStr ''abc''" and s = "''abc''"
      and rt = sample_runtime]
    InputStage_classification [where d = PNone and rt = sample_runtime]
  by (simp add: temperature_reading_def)

section \<open>Format guards\<close>

text \<open>
  C4. An input that fails the guard of a pipeline (for the JSON adapter: neither text
  nor a dict; for the CSV adapter: not a text with a comma; for the stream adapter: not
  a list of dicts only) gets back a text naming the input and the expected format. The
  result is a returned value and does not depend on the stages, none of which runs.
\<close>

theorem guard_rejection_is_returned:
  "(\<not> guard JSONAdapter data \<longrightarrow>
      JSONAdapter_process rt ss data
        = Inr (PStr (py_format rt data @ '' is not a JSON-like format'')))
 \<and> (\<not> guard CSVAdapter data \<longrightarrow>
      CSVAdapter_process rt ss data
        = Inr (PStr (py_format rt data @ '' is not a CSV-like format'')))
 \<and> (\<not> guard StreamAdapter data \<longrightarrow>
      StreamAdapter_process rt ss data
        = Inr (PStr (py_format rt data @ '' is not a stream-like format'')))
 \<and> (\<not> guard (adapter p) data \<longrightarrow>
      pipeline_process rt p data
        = Inr (PStr (py_format rt data @ reject_suffix (adapter p))))"
  by (simp add: pipeline_process_guard JSONAdapter_process_def CSVAdapter_process_def
        StreamAdapter_process_def del: pipeline_process.simps split: pyval.splits)

theorem guard_rejection_is_returned_witness:
  "\<not> guard JSONAdapter (PInt 42)
 \<and> JSONAdapter_process sample_runtime [InputStage, TransformStage, OutputStage] (PInt 42)
      = Inr (PStr ''? is not a JSON-like format'')
 \<and> \<not> guard CSVAdapter (PStr ''abc'')
 \<and> CSVAdapter_process sample_runtime [InputStage, TransformStage, OutputStage] (PStr ''abc'')
      = Inr (PStr ''abc is not a CSV-like format'')
 \<and> \<not> guard StreamAdapter (PList [PInt 1])
 \<and> StreamAdapter_process sample_runtime [InputStage, TransformStage, OutputStage]
      (PList [PInt 1]) = Inr (PStr ''? is not a stream-like format'')
 \<and> \<not> guard (adapter pipeline_C) PNone
 \<and> pipeline_process sample_runtime pipeline_C PNone
      = Inr (PStr ''? is not a JSON-like format'')"
  using guard_rejection_is_returned [where data = "PInt 42" and rt = sample_runtime
      and ss = "[InputStage, TransformStage, OutputStage]" and p = pipeline_C]
    guard_rejection_is_returned [where data = "PStr ''abc''" and rt = sample_runtime
      and ss = "[InputStage, TransformStage, OutputStage]" and p = pipeline_C]
    guard_rejection_is_returned [where data = "PList [PInt 1]" and rt = sample_runtime
      and ss = "[InputStage, TransformStage, OutputStage]" and p = pipeline_C]
    guard_rejection_is_returned [where data = PNone and rt = sample_runtime
      and ss = "[]" and p = pipeline_C]
  by (simp add: py_format_def sample_runtime_def pipeline_C_def add_stage_def new_pipeline_def
        reject_suffix_def del: pipeline_process.simps)

section \<open>Delimited text\<close>

text \<open>
  C6. For an envelope tagged \<^verbatim>\<open>csv\<close> whose payload is a text with N line feeds, the
  transformation returns the envelope with a payload of N + 1 rows, each the comma
  split of one line, and with \<^verbatim>\<open>size\<close> equal to N + 1.
\<close>

theorem delimited_rows:
  assumes "field e ''type'' = Some (PStr ''csv'')"
    and "field e ''payload'' = Some (PStr s)"
  shows "\<exists>e'. TransformStage_process e = (e', Inr e')
     \<and> field e' ''payload'' =
         Some (PList (map (\<lambda>row. PList (map PStr (split_on CHR '','' row)))
                 (split_on CHR 0x0A s)))
     \<and> length (split_on CHR 0x0A s) = count_list s (CHR 0x0A) + 1
     \<and> field e' ''size'' = Some (PInt (int (count_list s (CHR 0x0A)) + 1))"
proof (cases e)
  case (PDict kvs)
  with assms have t: "map_of kvs (PStr ''type'') = Some (PStr ''csv'')"
    and p: "map_of kvs (PStr ''payload'') = Some (PStr s)" by simp_all
  show ?thesis
    unfolding PDict
    by (simp add: t transform_csv_text [OF p] update_conv' split_on_length)
qed (use assms in simp_all)

theorem delimited_rows_witness:
  "field (InputStage_process (PStr ''a,b\<newline>c,d,e'')) ''type'' = Some (PStr ''csv'')
 \<and> field (InputStage_process (PStr ''a,b\<newline>c,d,e'')) ''payload'' = Some (PStr ''a,b\<newline>c,d,e'')
 \<and> (\<exists>e'. TransformStage_process (InputStage_process (PStr ''a,b\<newline>c,d,e'')) = (e', Inr e')
      \<and> field e' ''payload'' =
          Some (PList [PList [PStr ''a'', PStr ''b''], PList [PStr ''c'', PStr ''d'', PStr ''e'']])
      \<and> field e' ''size'' = Some (PInt 2))"
proof -
  have t: "field (InputStage_process (PStr ''a,b\<newline>c,d,e'')) ''type'' = Some (PStr ''csv'')"
    and p: "field (InputStage_process (PStr ''a,b\<newline>c,d,e'')) ''payload''
              = Some (PStr ''a,b\<newline>c,d,e'')"
    by (simp_all add: InputStage_text)
  from delimited_rows [OF t p] t p show ?thesis by simp
qed

section \<open>Guard and tag can disagree\<close>

text \<open>
  C9. The text \<^verbatim>\<open>{a,b}\<close> contains a comma, so the guard of the CSV (delimited) adapter
  accepts it; the input stage tests the braces before the comma and tags it \<^verbatim>\<open>json\<close>,
  not \<^verbatim>\<open>csv\<close>. The CSV pipeline of the source then reports it as a reading.
\<close>

theorem csv_guard_not_delimited:
  "guard CSVAdapter (PStr ''{a,b}'')
   \<and> field (InputStage_process (PStr ''{a,b}'')) ''type'' = Some (PStr ''json'')
   \<and> field (InputStage_process (PStr ''{a,b}'')) ''type'' \<noteq> Some (PStr ''csv'')
   \<and> CSVAdapter_process rt [InputStage] (PStr ''{a,b}'')
       = Inr (InputStage_process (PStr ''{a,b}''))
   \<and> CSVAdapter_process rt [InputStage, TransformStage, OutputStage] (PStr ''{a,b}'')
       = Inr (PStr (''Processed temperature reading: '' @ py_format rt (PInt 0)
           @ '' reading processed''))"
  by (simp add: InputStage_text CSVAdapter_process_def stage_process_def transform_json_def
        output_json_def Let_def)

section \<open>Empty compositions\<close>

text \<open>
  C10. A pipeline without stages returns an input that passes its guard as it is, and a
  manager without pipelines returns its input as it is.
\<close>

theorem empty_composition_identity:
  "(guard (adapter p) data \<and> stages p = [] \<longrightarrow> pipeline_process rt p data = Inr data)
   \<and> process_data rt [] data = Inr data"
  by (simp add: pipeline_process_guard del: pipeline_process.simps)

theorem empty_composition_identity_witness:
  "guard (adapter (new_pipeline CSVAdapter 2)) (PStr ''user,action,timestamp'')
   \<and> stages (new_pipeline CSVAdapter 2) = []
   \<and> pipeline_process sample_runtime (new_pipeline CSVAdapter 2) (PStr ''user,action,timestamp'')
       = Inr (PStr ''user,action,timestamp'')
   \<and> process_data sample_runtime [] (PStr ''user,action,timestamp'')
       = Inr (PStr ''user,action,timestamp'')"
  using empty_composition_identity [where p = "new_pipeline CSVAdapter 2"
      and data = "PStr ''user,action,timestamp''" and rt = sample_runtime]
  by (simp add: new_pipeline_def del: pipeline_process.simps)

section \<open>The tag is never reassigned\<close>

text \<open>
  C7. Only the input stage sets \<^verbatim>\<open>type\<close>, to one of the four tags. The transformation
  leaves the \<^verbatim>\<open>type\<close> of the dict it is given as it was, whether it returns or raises,
  and the dict it returns carries that same \<^verbatim>\<open>type\<close>; the output stage assigns nothing.
\<close>

theorem type_never_changed:
  "field (fst (stage_run rt TransformStage e)) ''type'' = field e ''type''
 \<and> field (fst (stage_run rt OutputStage e)) ''type'' = field e ''type''
 \<and> (stage_process rt TransformStage e = Inr e' \<longrightarrow> field e' ''type'' = field e ''type'')
 \<and> field (InputStage_process d) ''type''
     \<in> {Some (PStr ''json''), Some (PStr ''csv''), Some (PStr ''stream''),
         Some (PStr ''invalid'')}"
proof -
  have a: "field (fst (TransformStage_process e)) ''type'' = field e ''type''"
    by (rule TransformStage_keeps) simp_all
  have b: "field e' ''type'' = field e ''type''" if "snd (TransformStage_process e) = Inr e'"
    using TransformStage_returns [OF that] a by simp
  have c: "field (InputStage_process d) ''type''
     \<in> {Some (PStr ''json''), Some (PStr ''csv''), Some (PStr ''stream''),
         Some (PStr ''invalid'')}"
    by (cases d) (simp_all add: InputStage_process_def)
  from a b c show ?thesis by (simp add: stage_process_def)
qed

theorem type_never_changed_witness:
  "stage_process sample_runtime TransformStage
     (PDict [(PStr ''raw'', PStr ''a,b''), (PStr ''type'', PStr ''csv''),
             (PStr ''payload'', PStr ''a,b'')])
     = Inr (PDict [(PStr ''raw'', PStr ''a,b''), (PStr ''type'', PStr ''csv''),
             (PStr ''payload'', PList [PList [PStr ''a'', PStr ''b'']]),
             (PStr ''size'', PInt 1)])
 \<and> field (PDict [(PStr ''raw'', PStr ''a,b''), (PStr ''type'', PStr ''csv''),
             (PStr ''payload'', PList [PList [PStr ''a'', PStr ''b'']]),
             (PStr ''size'', PInt 1)]) ''type''
     = field (PDict [(PStr ''raw'', PStr ''a,b''), (PStr ''type'', PStr ''csv''),
             (PStr ''payload'', PStr ''a,b'')]) ''type''"
  using type_never_changed [where rt = sample_runtime
      and e = "PDict [(PStr ''raw'', PStr ''a,b''), (PStr ''type'', PStr ''csv''),
             (PStr ''payload'', PStr ''a,b'')]"
      and e' = "PDict [(PStr ''raw'', PStr ''a,b''), (PStr ''type'', PStr ''csv''),
             (PStr ''payload'', PList [PList [PStr ''a'', PStr ''b'']]),
             (PStr ''size'', PInt 1)]"]
  by (simp add: stage_process_def transform_csv_def Let_def)

section \<open>Summaries of structured envelopes\<close>

text \<open>
  C2, as the source has it. The output stage tests only whether the payload of a
  \<^verbatim>\<open>json\<close> envelope is a dict. A payload that is not a dict gets the summary quoting
  \<^verbatim>\<open>size\<close>; a dict with the keys \<^verbatim>\<open>value\<close> and \<^verbatim>\<open>unit\<close> gets the summary of one reading;
  a dict that lacks one of the two keys gets no summary: the lookup raises \<^verbatim>\<open>KeyError\<close>.
\<close>

theorem structured_summary:
  "(field e ''type'' = Some (PStr ''json'') \<and> field e ''payload'' = Some p \<and> \<not> is_dict p
      \<and> field e ''size'' = Some sz \<longrightarrow>
      OutputStage_process rt e
        = Inr (PStr (''Processed temperature reading: '' @ py_format rt sz
            @ '' reading processed'')))
 \<and> (field e ''type'' = Some (PStr ''json'') \<and> field e ''payload'' = Some (PDict m)
      \<and> map_of m (PStr ''value'') = Some v \<and> map_of m (PStr ''unit'') = Some u \<longrightarrow>
      OutputStage_process rt e
        = Inr (PStr (''Processed temperature reading: '' @ py_format rt v @ [CHR 0xB0]
            @ py_format rt u @ ''  (Normal range)'')))
 \<and> (field e ''type'' = Some (PStr ''json'') \<and> field e ''payload'' = Some (PDict m)
      \<and> (map_of m (PStr ''value'') = None \<or> map_of m (PStr ''unit'') = None) \<longrightarrow>
      OutputStage_process rt e = Inl KeyError)"
  by (cases e; cases p) (auto simp: output_json_def split: option.splits)

theorem structured_summary_witness:
  "field (PDict [(PStr ''type'', PStr ''json''), (PStr ''payload'', PStr ''{a:1}''),
       (PStr ''size'', PInt 1)]) ''payload'' = Some (PStr ''{a:1}'')
 \<and> \<not> is_dict (PStr ''{a:1}'')
 \<and> OutputStage_process sample_runtime
      (PDict [(PStr ''type'', PStr ''json''), (PStr ''payload'', PStr ''{a:1}''),
         (PStr ''size'', PInt 1)])
      = Inr (PStr ''Processed temperature reading: ? reading processed'')
 \<and> map_of [(PStr ''value'', PInt 23), (PStr ''unit'', PStr ''C'')] (PStr ''unit'')
      = Some (PStr ''C'')
 \<and> OutputStage_process sample_runtime
      (PDict [(PStr ''type'', PStr ''json''),
         (PStr ''payload'', PDict [(PStr ''value'', PInt 23), (PStr ''unit'', PStr ''C'')])])
      = Inr (PStr (''Processed temperature reading: ?'' @ [CHR 0xB0] @ ''C  (Normal range)''))
 \<and> map_of [(PStr ''value'', PInt 23)] (PStr ''unit'') = None
 \<and> OutputStage_process sample_runtime
      (PDict [(PStr ''type'', PStr ''json''),
         (PStr ''payload'', PDict [(PStr ''value'', PInt 23)]), (PStr ''size'', PInt 1)])
      = Inl KeyError"
  using structured_summary [where rt = sample_runtime
      and e = "PDict [(PStr ''type'', PStr ''json''), (PStr ''payload'', PStr ''{a:1}''),
         (PStr ''size'', PInt 1)]"
      and p = "PStr ''{a:1}''" and sz = "PInt 1"]
    structured_summary [where rt = sample_runtime
      and e = "PDict [(PStr ''type'', PStr ''json''),
         (PStr ''payload'', PDict [(PStr ''value'', PInt 23), (PStr ''unit'', PStr ''C'')])]"
      and m = "[(PStr ''value'', PInt 23), (PStr ''unit'', PStr ''C'')]"
      and v = "PInt 23" and u = "PStr ''C''"]
    structured_summary [where rt = sample_runtime
      and e = "PDict [(PStr ''type'', PStr ''json''),
         (PStr ''payload'', PDict [(PStr ''value'', PInt 23)]), (PStr ''size'', PInt 1)]"
      and m = "[(PStr ''value'', PInt 23)]"]
  by (simp add: py_format_def sample_runtime_def)

text \<open>
  The reading \<^verbatim>\<open>{"sensor": "temp"}\<close> has neither key. Its envelope is tagged \<^verbatim>\<open>json\<close>
  with \<^verbatim>\<open>size\<close> 1, the output stage raises \<^verbatim>\<open>KeyError\<close> on it, and so does the pipeline
  of the source.
\<close>

theorem structured_summary_counterexample:
  "stage_process sample_runtime TransformStage
      (InputStage_process (PDict [(PStr ''sensor'', PStr ''temp'')]))
     = Inr (PDict [(PStr ''raw'', PDict [(PStr ''sensor'', PStr ''temp'')]),
          (PStr ''payload'', PDict [(PStr ''sensor'', PStr ''temp'')]),
          (PStr ''type'', PStr ''json''), (PStr ''size'', PInt 1)])
 \<and> OutputStage_process sample_runtime
      (PDict [(PStr ''raw'', PDict [(PStr ''sensor'', PStr ''temp'')]),
          (PStr ''payload'', PDict [(PStr ''sensor'', PStr ''temp'')]),
          (PStr ''type'', PStr ''json''), (PStr ''size'', PInt 1)])
     = Inl KeyError
 \<and> JSONAdapter_process sample_runtime [InputStage, TransformStage, OutputStage]
      (PDict [(PStr ''sensor'', PStr ''temp'')])
     = Inl KeyError"
  by (simp add: JSONAdapter_process_def stage_process_def InputStage_process_def
        transform_json_def Let_def output_json_def)

section \<open>Empty streams\<close>

text \<open>
  C5, as the source has it. The output stage reads \<^verbatim>\<open>size\<close> in both summaries of a
  stream and divides by \<^verbatim>\<open>size\<close>, not by the number of values. For an envelope tagged
  \<^verbatim>\<open>stream\<close> that has a \<^verbatim>\<open>size\<close> and whose payload is the empty list, it returns the
  summary that quotes only \<^verbatim>\<open>size\<close>: the result is the same for every runtime, so
  neither the sum nor the division is evaluated. \<^verbatim>\<open>ZeroDivisionError\<close> is raised only on
  a stream envelope with a non-empty payload whose \<^verbatim>\<open>size\<close> is zero, and never on an
  envelope that the transformation returned (where \<^verbatim>\<open>size\<close> is the length of the
  payload). The stream pipeline of the source on the empty list returns the count-only
  summary.
\<close>

theorem empty_stream_count_only:
  "(field e ''type'' = Some (PStr ''stream'') \<and> field e ''payload'' = Some (PList [])
      \<and> field e ''size'' = Some sz \<longrightarrow>
      OutputStage_process rt e
        = Inr (PStr (''Stream summary: '' @ py_format rt sz @ '' readings'')))
 \<and> (OutputStage_process rt e = Inl ZeroDivisionError \<longrightarrow>
      field e ''type'' = Some (PStr ''stream'')
      \<and> (\<exists>p z. field e ''payload'' = Some p \<and> py_len p \<noteq> Inr 0
           \<and> field e ''size'' = Some z \<and> is_zero z))
 \<and> (stage_process rt TransformStage e0 = Inr e \<longrightarrow>
      OutputStage_process rt e \<noteq> Inl ZeroDivisionError)
 \<and> StreamAdapter_process rt [InputStage, TransformStage, OutputStage] (PList [])
      = Inr (PStr (''Stream summary: '' @ fmt rt (PInt 0) @ '' readings''))"
proof -
  have a: "OutputStage_process rt e
      = Inr (PStr (''Stream summary: '' @ py_format rt sz @ '' readings''))"
    if "field e ''type'' = Some (PStr ''stream'')" "field e ''payload'' = Some (PList [])"
      "field e ''size'' = Some sz"
    using that by (cases e) (simp_all add: output_stream_def)
  have b: "OutputStage_process rt e \<noteq> Inl ZeroDivisionError"
    if "stage_process rt TransformStage e0 = Inr e"
    using that no_zero_division_after_transform [of e0 e rt] by (simp add: stage_process_def)
  have c: "StreamAdapter_process rt [InputStage, TransformStage, OutputStage] (PList [])
      = Inr (PStr (''Stream summary: '' @ fmt rt (PInt 0) @ '' readings''))"
    by (simp add: StreamAdapter_process_def stage_process_def InputStage_process_def
        transform_stream_def Let_def output_stream_def py_format_def)
  from a b c OutputStage_zero_division [of rt e] show ?thesis by blast
qed

theorem empty_stream_count_only_witness:
  "field (PDict [(PStr ''raw'', PList []), (PStr ''payload'', PList []),
       (PStr ''type'', PStr ''stream''), (PStr ''size'', PInt 0)]) ''payload'' = Some (PList [])
 \<and> OutputStage_process sample_runtime
      (PDict [(PStr ''raw'', PList []), (PStr ''payload'', PList []),
         (PStr ''type'', PStr ''stream''), (PStr ''size'', PInt 0)])
      = Inr (PStr ''Stream summary: ? readings'')
 \<and> OutputStage_process sample_runtime
      (PDict [(PStr ''type'', PStr ''stream''),
         (PStr ''payload'', PList [PDict [(PStr ''value'', PInt 18), (PStr ''unit'', PStr ''C'')]]),
         (PStr ''size'', PInt 0)])
      = Inl ZeroDivisionError
 \<and> is_zero (PInt 0)
 \<and> py_len (PList [PDict [(PStr ''value'', PInt 18), (PStr ''unit'', PStr ''C'')]]) \<noteq> Inr 0
 \<and> stage_process sample_runtime TransformStage
      (InputStage_process
         (PList [PDict [(PStr ''value'', PInt 18), (PStr ''unit'', PStr ''C'')],
                 PDict [(PStr ''value'', PInt 17), (PStr ''unit'', PStr ''C'')]]))
      = Inr (PDict [(PStr ''raw'',
               PList [PDict [(PStr ''value'', PInt 18), (PStr ''unit'', PStr ''C'')],
                      PDict [(PStr ''value'', PInt 17), (PStr ''unit'', PStr ''C'')]]),
             (PStr ''payload'',
               PList [PDict [(PStr ''value'', PInt 18), (PStr ''unit'', PStr ''C'')],
                      PDict [(PStr ''value'', PInt 17), (PStr ''unit'', PStr ''C'')]]),
             (PStr ''type'', PStr ''stream''), (PStr ''size'', PInt 2)])
 \<and> OutputStage_process sample_runtime
      (PDict [(PStr ''raw'',
               PList [PDict [(PStr ''value'', PInt 18), (PStr ''unit'', PStr ''C'')],
                      PDict [(PStr ''value'', PInt 17), (PStr ''unit'', PStr ''C'')]]),
             (PStr ''payload'',
               PList [PDict [(PStr ''value'', PInt 18), (PStr ''unit'', PStr ''C'')],
                      PDict [(PStr ''value'', PInt 17), (PStr ''unit'', PStr ''C'')]]),
             (PStr ''type'', PStr ''stream''), (PStr ''size'', PInt 2)])
      \<noteq> Inl ZeroDivisionError"
  using empty_stream_count_only [where rt = sample_runtime
      and e = "PDict [(PStr ''raw'', PList []), (PStr ''payload'', PList []),
         (PStr ''type'', PStr ''stream''), (PStr ''size'', PInt 0)]"
      and sz = "PInt 0" and e0 = "InputStage_process (PList [])"]
    empty_stream_count_only [where rt = sample_runtime
      and e = "PDict [(PStr ''type'', PStr ''stream''),
         (PStr ''payload'', PList [PDict [(PStr ''value'', PInt 18), (PStr ''unit'', PStr ''C'')]]),
         (PStr ''size'', PInt 0)]"]
    empty_stream_count_only [where rt = sample_runtime
      and e0 = "InputStage_process
         (PList [PDict [(PStr ''value'', PInt 18), (PStr ''unit'', PStr ''C'')],
                 PDict [(PStr ''value'', PInt 17), (PStr ''unit'', PStr ''C'')]])"
      and e = "PDict [(PStr ''raw'',
               PList [PDict [(PStr ''value'', PInt 18), (PStr ''unit'', PStr ''C'')],
                      PDict [(PStr ''value'', PInt 17), (PStr ''unit'', PStr ''C'')]]),
             (PStr ''payload'',
               PList [PDict [(PStr ''value'', PInt 18), (PStr ''unit'', PStr ''C'')],
                      PDict [(PStr ''value'', PInt 17), (PStr ''unit'', PStr ''C'')]]),
             (PStr ''type'', PStr ''stream''), (PStr ''size'', PInt 2)]"]
  by (simp add: py_format_def sample_runtime_def stage_process_def InputStage_process_def
        transform_stream_def Let_def output_stream_def stream_average_def py_sum_def
        py_truediv_def)

text \<open>
  Without the transformation the envelope of the empty list has no \<^verbatim>\<open>size\<close>, and the
  output stage raises \<^verbatim>\<open>KeyError\<close> on it. A stream envelope with one record and
  \<^verbatim>\<open>size\<close> 0 is a dict, so pipeline C accepts it, and its output stage raises
  \<^verbatim>\<open>ZeroDivisionError\<close>.
\<close>

theorem empty_stream_count_only_counterexample:
  "field (InputStage_process (PList [])) ''type'' = Some (PStr ''stream'')
 \<and> field (InputStage_process (PList [])) ''payload'' = Some (PList [])
 \<and> OutputStage_process sample_runtime (InputStage_process (PList [])) = Inl KeyError
 \<and> StreamAdapter_process sample_runtime [InputStage, OutputStage] (PList []) = Inl KeyError
 \<and> pipeline_process sample_runtime pipeline_C
      (PDict [(PStr ''type'', PStr ''stream''),
         (PStr ''payload'', PList [PDict [(PStr ''value'', PInt 18), (PStr ''unit'', PStr ''C'')]]),
         (PStr ''size'', PInt 0)])
      = Inl ZeroDivisionError"
  by (simp add: InputStage_process_def output_stream_def StreamAdapter_process_def
        JSONAdapter_process_def stage_process_def pipeline_C_def add_stage_def new_pipeline_def
        stream_average_def py_sum_def py_truediv_def sample_runtime_def)

section \<open>Chaining through the manager\<close>

text \<open>
  C8. For the temperature reading, the manager over pipelines A (input stage and
  transformation), B (transformation) and C (output stage) returns the text that one
  JSON pipeline returns with the stages of A, B and C in order, and also with five
  stages (one more transformation). Each hand-off value passes the guard of the
  pipeline that receives it.
\<close>

theorem chaining_equals_single_pipeline:
  "process_data rt [pipeline_A, pipeline_B, pipeline_C] temperature_reading
     = JSONAdapter_process rt (stages pipeline_A @ stages pipeline_B @ stages pipeline_C)
         temperature_reading
 \<and> stages pipeline_A @ stages pipeline_B @ stages pipeline_C
     = [InputStage, TransformStage, TransformStage, OutputStage]
 \<and> process_data rt [pipeline_A, pipeline_B, pipeline_C] temperature_reading
     = JSONAdapter_process rt
         [InputStage, TransformStage, TransformStage, TransformStage, OutputStage]
         temperature_reading
 \<and> process_data rt [pipeline_A, pipeline_B, pipeline_C] temperature_reading
     = Inr (PStr (''Processed temperature reading: '' @ fmt rt (PFloat (47 / 2)) @ [CHR 0xB0]
         @ ''C  (Normal range)''))
 \<and> (\<exists>e1 e2. pipeline_process rt pipeline_A temperature_reading = Inr e1
       \<and> guard (adapter pipeline_B) e1
       \<and> pipeline_process rt pipeline_B e1 = Inr e2
       \<and> guard (adapter pipeline_C) e2)"
  by (simp add: pipeline_A_def pipeline_B_def pipeline_C_def add_stage_def new_pipeline_def
      temperature_reading_def JSONAdapter_process_def stage_process_def InputStage_process_def
      transform_json_def Let_def output_json_def py_format_def)

end
